theory Spec2Isabelle
  imports Complex_Main "HOL-Library.Sublist"
begin

section \<open>Strings\<close>

text \<open>
  Python strings are modelled as Isabelle strings. The model is exact on ASCII text:
  \<open>str.lower\<close> maps \<open>A..Z\<close> to \<open>a..z\<close> and leaves every other character alone, and the
  regular expression class \<open>\w\<close> is letters, digits and the underscore.
\<close>

definition lower_char :: "char \<Rightarrow> char" where
  "lower_char c =
     (case map_of (zip ''ABCDEFGHIJKLMNOPQRSTUVWXYZ'' ''abcdefghijklmnopqrstuvwxyz'') c of
        Some l \<Rightarrow> l
      | None \<Rightarrow> c)"

definition str_lower :: "string \<Rightarrow> string" where
  "str_lower s = map lower_char s"

text \<open>Python's \<open>sub in s\<close> on strings: \<open>sub\<close> occurs in \<open>s\<close> as a contiguous block.\<close>

fun str_in :: "string \<Rightarrow> string \<Rightarrow> bool" where
  "str_in sub [] = (sub = [])"
| "str_in sub (c # cs) = (prefix sub (c # cs) \<or> str_in sub cs)"

section \<open>Data model (models.py)\<close>

text \<open>
  \<open>GitHubIssue\<close>. The field \<open>id\<close> is called \<open>issue_id\<close> here. \<open>matched_skills\<close> is
  written by the scorer as \<open>list(matched_skills)\<close> of a Python set, whose order is not
  specified; the field is kept as the set. Scores are sums of the constants 0.5, 1.0, 1.5,
  2.0 and 3.0, which binary floating point adds exactly; they are modelled as reals.
\<close>

record github_issue =
  issue_id :: int
  number :: int
  title :: string
  body :: string
  url :: string
  repository_name :: string
  repository_url :: string
  labels :: "string list"
  created_at :: string
  updated_at :: string
  difficulty :: string
  matched_skills :: "string set"
  relevance_score :: real

record user_skills =
  languages :: "string list"
  technologies :: "string list"
  experience_level :: string

section \<open>Difficulty classification (issue_matcher.py, \<open>_determine_difficulty\<close>)\<close>

text \<open>\<open>any(label in labels_lower for label in candidates)\<close>\<close>

definition any_label_in :: "string list \<Rightarrow> string list \<Rightarrow> bool" where
  "any_label_in candidates labels_lower = list_ex (\<lambda>label. label \<in> set labels_lower) candidates"

text \<open>The dictionary \<open>complexity_indicators\<close>, in insertion order.\<close>

definition complexity_indicators :: "(string \<times> string list) list" where
  "complexity_indicators =
     [(''beginner'', [''simple'', ''easy'', ''basic'', ''straightforward'', ''minor'']),
      (''expert'', [''complex'', ''advanced'', ''architecture'', ''performance'',
                    ''optimization'', ''refactor''])]"

text \<open>The loop over \<open>complexity_indicators.items()\<close>, falling through to the default.\<close>

fun scan_indicators :: "(string \<times> string list) list \<Rightarrow> string \<Rightarrow> string" where
  "scan_indicators [] body_lower = ''intermediate''"
| "scan_indicators ((level, indicators) # rest) body_lower =
     (if list_ex (\<lambda>indicator. str_in indicator body_lower) indicators then level
      else scan_indicators rest body_lower)"

definition determine_difficulty :: "string list \<Rightarrow> string \<Rightarrow> string" where
  "determine_difficulty label_names body_text =
     (let labels_lower = map str_lower label_names;
          body_lower = str_lower body_text
      in if any_label_in [''good first issue'', ''beginner'', ''easy'', ''starter''] labels_lower
           then ''beginner''
         else if any_label_in [''intermediate'', ''medium''] labels_lower
           then ''intermediate''
         else if any_label_in [''hard'', ''expert'', ''complex'', ''difficult''] labels_lower
           then ''expert''
         else if any_label_in [''help wanted''] labels_lower
           then ''intermediate''
         else if any_label_in [''bug''] labels_lower
           then ''intermediate''
         else if any_label_in [''enhancement'', ''feature''] labels_lower
           then ''intermediate''
         else scan_indicators complexity_indicators body_lower)"

text \<open>
  The cascade as the specification words it: \<open>L\<close> is the set of lower-cased labels,
  \<open>B\<close> the lower-cased body; the first rule that applies decides.
\<close>

definition spec_difficulty_cascade :: "string set \<Rightarrow> string \<Rightarrow> string" where
  "spec_difficulty_cascade L B =
     (if L \<inter> {''good first issue'', ''beginner'', ''easy'', ''starter''} \<noteq> {} then ''beginner''
      else if L \<inter> {''intermediate'', ''medium''} \<noteq> {} then ''intermediate''
      else if L \<inter> {''hard'', ''expert'', ''complex'', ''difficult''} \<noteq> {} then ''expert''
      else if ''help wanted'' \<in> L then ''intermediate''
      else if ''bug'' \<in> L then ''intermediate''
      else if ''enhancement'' \<in> L \<or> ''feature'' \<in> L then ''intermediate''
      else if (\<exists>k \<in> {''simple'', ''easy'', ''basic'', ''straightforward'', ''minor''}. str_in k B)
        then ''beginner''
      else if (\<exists>k \<in> {''complex'', ''advanced'', ''architecture'', ''performance'',
                        ''optimization'', ''refactor''}. str_in k B)
        then ''expert''
      else ''intermediate'')"

section \<open>Deduplication (issue_matcher.py, \<open>_remove_duplicates\<close>)\<close>



section \<open>Scoring (issue_matcher.py, \<open>_score_issues\<close>)\<close>

text \<open>
  The two loops over \<open>user_skills.languages\<close> (2.0 points a match) and
  \<open>user_skills.technologies\<close> (1.5 points a match) have the same body; \<open>points\<close> is the
  constant. The state of the loop is \<open>score\<close> and the set \<open>matched_skills\<close>.
\<close>

fun skill_loop :: "real \<Rightarrow> string \<Rightarrow> string list \<Rightarrow> real \<times> string set \<Rightarrow> real \<times> string set" where
  "skill_loop points content [] (score, matched) = (score, matched)"
| "skill_loop points content (skill # rest) (score, matched) =
     (if str_in (str_lower skill) content
      then skill_loop points content rest (score + points, insert skill matched)
      else skill_loop points content rest (score, matched))"

text \<open>The loop over \<open>issue.labels\<close>; \<open>level\<close> is \<open>user_skills.experience_level\<close>.\<close>

fun label_loop :: "string \<Rightarrow> string list \<Rightarrow> real \<Rightarrow> real" where
  "label_loop level [] score = score"
| "label_loop level (label # rest) score =
     (let label_lower = str_lower label
      in if str_in ''good first issue'' label_lower \<and> level \<in> set [''beginner'', ''intermediate'']
           then label_loop level rest (score + 3.0)
         else if str_in ''help wanted'' label_lower
           then label_loop level rest (score + 2.0)
         else if str_in ''bug'' label_lower
           then label_loop level rest (score + 1.0)
         else if str_in ''enhancement'' label_lower \<or> str_in ''feature'' label_lower
           then label_loop level rest (score + 1.5)
         else label_loop level rest score)"

definition difficulty_bonus :: "string \<Rightarrow> string \<Rightarrow> real" where
  "difficulty_bonus issue_difficulty level =
     (if issue_difficulty = level then 2.0
      else if (issue_difficulty = ''beginner'' \<and> level \<in> set [''intermediate'', ''advanced''])
            \<or> (issue_difficulty = ''intermediate'' \<and> level \<in> set [''advanced'', ''expert''])
        then 1.0
      else 0)"

text \<open>
  The recency bonus. \<open>days_old\<close> is the result of the \<open>try\<close> block's first two lines
  (\<open>datetime.fromisoformat\<close> and the clock, both outside the repository): \<open>None\<close> when
  they raise, which the bare \<open>except\<close> turns into no bonus.
\<close>

definition recency_bonus :: "int option \<Rightarrow> real" where
  "recency_bonus days_old =
     (case days_old of
        None \<Rightarrow> 0
      | Some d \<Rightarrow> if d \<le> 7 then 1.0 else if d \<le> 30 then 0.5 else 0)"

definition issue_content :: "github_issue \<Rightarrow> string" where
  "issue_content issue = str_lower (title issue @ '' '' @ body issue)"

text \<open>
  One iteration of the loop of \<open>_score_issues\<close>. \<open>age_days\<close> maps \<open>issue.updated_at\<close> to
  \<open>days_old\<close> at the time of the pass.
\<close>

definition score_issue :: "(string \<Rightarrow> int option) \<Rightarrow> user_skills \<Rightarrow> github_issue \<Rightarrow> github_issue" where
  "score_issue age_days skills issue =
     (let content = issue_content issue;
          (score, matched) = skill_loop 2.0 content (languages skills) (0, {});
          (score, matched) = skill_loop 1.5 content (technologies skills) (score, matched);
          score = label_loop (experience_level skills) (labels issue) score;
          score = score + difficulty_bonus (difficulty issue) (experience_level skills);
          score = score + recency_bonus (age_days (updated_at issue))
      in issue \<lparr> relevance_score := score, matched_skills := matched \<rparr>)"

definition score_issues ::
  "(string \<Rightarrow> int option) \<Rightarrow> github_issue list \<Rightarrow> user_skills \<Rightarrow> github_issue list" where
  "score_issues age_days issues skills = map (score_issue age_days skills) issues"

text \<open>
  The label bonuses as the specification words them: four independent bonuses, each
  applicable one added.
\<close>

definition spec_label_bonus :: "string \<Rightarrow> string \<Rightarrow> real" where
  "spec_label_bonus level label =
     (let l = str_lower label
      in (if str_in ''good first issue'' l \<and> level \<in> {''beginner'', ''intermediate''} then 3.0 else 0)
       + (if str_in ''help wanted'' l then 2.0 else 0)
       + (if str_in ''bug'' l then 1.0 else 0)
       + (if str_in ''enhancement'' l \<or> str_in ''feature'' l then 1.5 else 0))"

text \<open>
  The label bonus with priorities: a category counts only when no category before it in
  the order good first issue, help wanted, bug, enhancement/feature applies.
\<close>

definition first_label_bonus :: "string \<Rightarrow> string \<Rightarrow> real" where
  "first_label_bonus level label =
     (let l = str_lower label;
          gfi = (str_in ''good first issue'' l \<and> level \<in> {''beginner'', ''intermediate''});
          hw = str_in ''help wanted'' l;
          bug = str_in ''bug'' l;
          enh = (str_in ''enhancement'' l \<or> str_in ''feature'' l)
      in (if gfi then 3.0 else 0)
       + (if \<not> gfi \<and> hw then 2.0 else 0)
       + (if \<not> gfi \<and> \<not> hw \<and> bug then 1.0 else 0)
       + (if \<not> gfi \<and> \<not> hw \<and> \<not> bug \<and> enh then 1.5 else 0))"

section \<open>Ranking (issue_matcher.py, \<open>find_matching_issues\<close>, the last two statements)\<close>

text \<open>
  \<open>scored_issues.sort(key=lambda x: x.relevance_score, reverse=True)\<close>: Python's sort is
  stable, also with \<open>reverse=True\<close>. It is modelled as the stable insertion sort of the
  library on the negated key.
\<close>

definition sort_by_score :: "github_issue list \<Rightarrow> github_issue list" where
  "sort_by_score issues = sort_key (\<lambda>x. - relevance_score x) issues"

text \<open>
  The slice \<open>xs[:n]\<close> for a Python integer \<open>n\<close>: the first \<open>n\<close> elements when \<open>n\<close> is
  not negative, all but the last \<open>-n\<close> elements when it is.
\<close>

definition slice_to :: "'a list \<Rightarrow> int \<Rightarrow> 'a list" where
  "slice_to xs n = (if 0 \<le> n then take (nat n) xs else take (nat (int (length xs) + n)) xs)"

definition rank_issues :: "github_issue list \<Rightarrow> int \<Rightarrow> github_issue list" where
  "rank_issues scored_issues max_results = slice_to (sort_by_score scored_issues) max_results"

section \<open>Technology classifier (skill_extractor.py)\<close>

text \<open>
  \<open>re.findall(r'\b\w+(?:[.-]\w+)*\b', text_lower)\<close>. A match starts at the first word
  character after a non-word character, takes the whole run of word characters, and goes
  on through a single \<open>.\<close> or \<open>-\<close> whenever a word character follows it; the greedy match
  always ends at a word boundary, so the search never backtracks. \<open>cur\<close> is the match
  under construction.
\<close>

definition is_word_char :: "char \<Rightarrow> bool" where
  "is_word_char c =
     (c \<in> set ''abcdefghijklmnopqrstuvwxyzABCDEFGHIJKLMNOPQRSTUVWXYZ0123456789_'')"

definition emit_word :: "string \<Rightarrow> string list" where
  "emit_word cur = (if cur = [] then [] else [cur])"

fun scan_words :: "string \<Rightarrow> string \<Rightarrow> string list" where
  "scan_words cur [] = emit_word cur"
| "scan_words cur (c # cs) =
     (if is_word_char c then scan_words (cur @ [c]) cs
      else if (c = CHR ''.'' \<or> c = CHR ''-'') \<and> cur \<noteq> []
              \<and> (case cs of [] \<Rightarrow> False | d # _ \<Rightarrow> is_word_char d)
        then scan_words (cur @ [c]) cs
      else emit_word cur @ scan_words [] cs)"

definition findall_words :: "string \<Rightarrow> string list" where
  "findall_words text_lower = scan_words [] text_lower"

text \<open>The object state of \<open>SkillExtractor\<close>, as \<open>__init__\<close> builds it.\<close>

record skill_extractor =
  programming_languages :: "string set"
  frameworks_libraries :: "string set"
  databases :: "string set"
  cloud_platforms :: "string set"
  tools_technologies :: "string set"
  all_technologies :: "string set"

definition programming_languages_init :: "string list" where
  "programming_languages_init =
     [
      ''python'', ''javascript'', ''java'', ''c++'', ''c#'', ''c'', ''go'', ''rust'',
      ''swift'', ''kotlin'', ''scala'', ''ruby'', ''php'', ''typescript'', ''dart'', ''r'',
      ''matlab'', ''perl'', ''lua'', ''haskell'', ''clojure'', ''elixir'', ''erlang'',
      ''f#'', ''pascal'', ''cobol'', ''fortran'', ''assembly'', ''bash'', ''shell'',
      ''powershell'', ''sql'', ''html'', ''css'', ''xml'', ''json'', ''yaml'', ''toml''
     ]"

definition frameworks_libraries_init :: "string list" where
  "frameworks_libraries_init =
     [
      ''react'', ''angular'', ''vue'', ''svelte'', ''django'', ''flask'', ''fastapi'',
      ''express'', ''spring'', ''laravel'', ''rails'', ''asp.net'', ''blazor'', ''gatsby'',
      ''next.js'', ''nuxt.js'', ''electron'', ''react-native'', ''flutter'', ''ionic'',
      ''cordova'', ''tensorflow'', ''pytorch'', ''keras'', ''scikit-learn'', ''pandas'',
      ''numpy'', ''opencv'', ''matplotlib'', ''seaborn'', ''plotly'', ''d3.js'',
      ''three.js'', ''bootstrap'', ''tailwind'', ''material-ui'', ''ant-design'',
      ''chakra-ui'', ''jquery'', ''lodash'', ''moment.js'', ''axios'', ''redux'', ''mobx'',
      ''rxjs''
     ]"

definition databases_init :: "string list" where
  "databases_init =
     [
      ''mysql'', ''postgresql'', ''sqlite'', ''mongodb'', ''redis'', ''elasticsearch'',
      ''cassandra'', ''neo4j'', ''dynamodb'', ''firebase'', ''supabase'', ''prisma'',
      ''sequelize'', ''mongoose'', ''sqlalchemy'', ''hibernate'', ''entity-framework''
     ]"

definition cloud_platforms_init :: "string list" where
  "cloud_platforms_init =
     [
      ''aws'', ''azure'', ''gcp'', ''google-cloud'', ''heroku'', ''netlify'', ''vercel'',
      ''digitalocean'', ''linode'', ''kubernetes'', ''docker'', ''jenkins'', ''gitlab-ci'',
      ''github-actions'', ''travis-ci'', ''circleci''
     ]"

definition tools_technologies_init :: "string list" where
  "tools_technologies_init =
     [
      ''git'', ''github'', ''gitlab'', ''bitbucket'', ''jira'', ''confluence'', ''slack'',
      ''discord'', ''figma'', ''sketch'', ''adobe'', ''photoshop'', ''illustrator'',
      ''webpack'', ''vite'', ''parcel'', ''babel'', ''eslint'', ''prettier'', ''jest'',
      ''cypress'', ''selenium'', ''postman'', ''insomnia'', ''swagger'', ''graphql'',
      ''rest'', ''api'', ''microservices'', ''serverless'', ''jamstack'', ''pwa'', ''spa'',
      ''ssr'', ''ssg'', ''cms'', ''headless'', ''blockchain'', ''web3'', ''nft'', ''defi'',
      ''smart-contracts'', ''solidity'', ''ethereum'', ''bitcoin''
     ]"

definition SkillExtractor_init :: skill_extractor where
  "SkillExtractor_init =
     \<lparr> programming_languages = set programming_languages_init,
       frameworks_libraries = set frameworks_libraries_init,
       databases = set databases_init,
       cloud_platforms = set cloud_platforms_init,
       tools_technologies = set tools_technologies_init,
       all_technologies = set frameworks_libraries_init \<union> set databases_init
                          \<union> set cloud_platforms_init \<union> set tools_technologies_init \<rparr>"

definition compound_terms :: "string list" where
  "compound_terms =
     [''react-native'', ''next.js'', ''vue.js'', ''node.js'', ''asp.net'',
      ''material-ui'', ''ant-design'', ''chakra-ui'', ''github-actions'',
      ''gitlab-ci'', ''travis-ci'', ''google-cloud'']"

definition text_variations :: "(string \<times> string) list" where
  "text_variations =
     [(''js'', ''javascript''), (''ts'', ''typescript''), (''py'', ''python''),
      (''cpp'', ''c++''), (''csharp'', ''c#''), (''postgres'', ''postgresql''),
      (''mongo'', ''mongodb''), (''k8s'', ''kubernetes''), (''tf'', ''tensorflow''),
      (''ml'', ''machine-learning''), (''ai'', ''artificial-intelligence''),
      (''nlp'', ''natural-language-processing''), (''cv'', ''computer-vision'')]"

text \<open>
  \<open>extract_from_text\<close> is a method: it is given the object and returns it with the
  result, so that what a call does to the object is part of the model.
\<close>

definition extract_from_text :: "string \<Rightarrow> skill_extractor \<Rightarrow> string set \<times> skill_extractor" where
  "extract_from_text text self =
     (if text = [] then ({}, self)
      else
        let text_lower = str_lower text;
            words = findall_words text_lower;
            found_technologies = {};
            found_technologies = found_technologies
              \<union> set (filter (\<lambda>word. word \<in> all_technologies self
                                    \<or> word \<in> programming_languages self) words);
            found_technologies = found_technologies
              \<union> set (filter (\<lambda>t. str_in t text_lower) compound_terms);
            found_technologies = found_technologies
              \<union> set (List.map_filter (map_of text_variations) words)
        in (found_technologies, self))"

definition is_programming_language :: "skill_extractor \<Rightarrow> string \<Rightarrow> bool" where
  "is_programming_language self tech \<longleftrightarrow> str_lower tech \<in> programming_languages self"

definition is_technology :: "skill_extractor \<Rightarrow> string \<Rightarrow> bool" where
  "is_technology self tech \<longleftrightarrow>
     str_lower tech \<in> all_technologies self \<or> str_lower tech \<in> programming_languages self"

section \<open>Upstream data (PyGithub objects read by github_analyzer.py)\<close>

text \<open>
  Reading an attribute of a PyGithub object or calling one of its methods may raise; the
  outcome of each read is a value of its own. A number that comes back as \<open>None\<close> raises
  at its first comparison and counts as a read that raised. Timestamps are seconds, and
  \<open>(a - b).days\<close> of two of them is the floor of the difference in days.
\<close>

datatype 'a fetched = Raised | Got 'a

record github_repo =
  repo_name :: "string option"
  repo_description :: "string option"
  repo_languages :: "string list fetched"
  has_get_topics :: bool
  repo_topics :: "string list fetched"
  repo_updated_at :: "int option fetched"

record github_user =
  bio :: "string option"
  user_created_at :: "int fetched"
  user_updated_at :: "int fetched"
  public_repos :: "int fetched"
  followers :: "int fetched"
  following :: "int fetched"
  user_repos :: "github_repo list fetched"

definition days_between :: "int \<Rightarrow> int \<Rightarrow> int" where
  "days_between a b = (a - b) div 86400"

section \<open>Experience estimator (github_analyzer.py, \<open>_estimate_experience_level\<close>)\<close>

text \<open>
  The list comprehension \<open>active_repos\<close> over \<open>repos[:10]\<close>; \<open>None\<close> when reading a
  repository's \<open>updated_at\<close> raises.
\<close>

fun active_repos :: "int \<Rightarrow> github_repo list \<Rightarrow> github_repo list option" where
  "active_repos user_updated [] = Some []"
| "active_repos user_updated (repo # rest) =
     (case repo_updated_at repo of
        Raised \<Rightarrow> None
      | Got None \<Rightarrow> active_repos user_updated rest
      | Got (Some t) \<Rightarrow>
          (case active_repos user_updated rest of
             None \<Rightarrow> None
           | Some active \<Rightarrow>
               Some (if days_between user_updated t \<le> 365 then repo # active else active)))"

text \<open>The body of the \<open>try\<close> block; \<open>None\<close> when it raises.\<close>

definition experience_try :: "github_user \<Rightarrow> github_repo list \<Rightarrow> string option" where
  "experience_try user repos =
     (case (user_updated_at user, user_created_at user, public_repos user, followers user) of
        (Got updated, Got created, Got total_repos, Got follower_count) \<Rightarrow>
          (let account_age = real_of_int (days_between updated created) / 365.25;
               score = (0 :: int);
               score = (if account_age \<ge> 5 then score + 3
                        else if account_age \<ge> 2 then score + 2
                        else if account_age \<ge> 1 then score + 1
                        else score);
               score = (if total_repos \<ge> 50 then score + 3
                        else if total_repos \<ge> 20 then score + 2
                        else if total_repos \<ge> 5 then score + 1
                        else score);
               score = (if follower_count \<ge> 100 then score + 2
                        else if follower_count \<ge> 20 then score + 1
                        else score)
           in case active_repos updated (take 10 repos) of
                None \<Rightarrow> None
              | Some active \<Rightarrow>
                  (let score = (if length active \<ge> 5 then score + 2
                                else if length active \<ge> 2 then score + 1
                                else score)
                   in Some (if score \<ge> 8 then ''expert''
                            else if score \<ge> 5 then ''advanced''
                            else if score \<ge> 2 then ''intermediate''
                            else ''beginner'')))
      | _ \<Rightarrow> None)"

definition estimate_experience_level :: "github_user \<Rightarrow> github_repo list \<Rightarrow> string" where
  "estimate_experience_level user repos =
     (case experience_try user repos of
        Some level \<Rightarrow> level
      | None \<Rightarrow> ''intermediate'')"

text \<open>The estimator as the specification words it: four point scales, added, then a tier.\<close>

definition spec_age_points :: "real \<Rightarrow> int" where
  "spec_age_points years = (if years \<ge> 5 then 3 else if years \<ge> 2 then 2 else if years \<ge> 1 then 1 else 0)"

definition spec_repo_points :: "int \<Rightarrow> int" where
  "spec_repo_points n = (if n \<ge> 50 then 3 else if n \<ge> 20 then 2 else if n \<ge> 5 then 1 else 0)"

definition spec_follower_points :: "int \<Rightarrow> int" where
  "spec_follower_points n = (if n \<ge> 100 then 2 else if n \<ge> 20 then 1 else 0)"

definition spec_activity_points :: "nat \<Rightarrow> int" where
  "spec_activity_points n = (if n \<ge> 5 then 2 else if n \<ge> 2 then 1 else 0)"

definition spec_tier :: "int \<Rightarrow> string" where
  "spec_tier points =
     (if points \<ge> 8 then ''expert'' else if points \<ge> 5 then ''advanced''
      else if points \<ge> 2 then ''intermediate'' else ''beginner'')"

text \<open>
  The activity count as the specification words it: the repositories, among the first ten,
  updated within the last 365 days, that is at most 365 days before \<open>now\<close>, the time of
  the call.
\<close>

definition spec_recently_active :: "int \<Rightarrow> github_repo list \<Rightarrow> github_repo list" where
  "spec_recently_active now repos =
     filter (\<lambda>repo. case repo_updated_at repo of
                      Got (Some t) \<Rightarrow> t \<le> now \<and> now - t \<le> 365 * 86400
                    | _ \<Rightarrow> False)
            (take 10 repos)"

definition spec_experience_tier ::
  "int \<Rightarrow> int \<Rightarrow> int \<Rightarrow> int \<Rightarrow> int \<Rightarrow> github_repo list \<Rightarrow> string" where
  "spec_experience_tier now updated created total_repos follower_count repos =
     spec_tier (spec_age_points (real_of_int (days_between updated created) / 365.25)
                + spec_repo_points total_repos
                + spec_follower_points follower_count
                + spec_activity_points (length (spec_recently_active now repos)))"

text \<open>
  The activity count of the amended claim, which does not look at the clock: the
  repositories, among the first ten, whose \<open>updated_at\<close> is no more than 365 whole days
  before the user's own \<open>updated_at\<close>. A repository updated after the user counts.
\<close>

definition active_relative_to_user :: "int \<Rightarrow> github_repo list \<Rightarrow> github_repo list" where
  "active_relative_to_user user_updated repos =
     filter (\<lambda>repo. case repo_updated_at repo of
                      Got (Some t) \<Rightarrow> days_between user_updated t \<le> 365
                    | _ \<Rightarrow> False)
            (take 10 repos)"

definition upstream_failure :: "github_user \<Rightarrow> github_repo list \<Rightarrow> bool" where
  "upstream_failure user repos \<longleftrightarrow>
     user_updated_at user = Raised \<or> user_created_at user = Raised
     \<or> public_repos user = Raised \<or> followers user = Raised
     \<or> list_ex (\<lambda>repo. repo_updated_at repo = Raised) (take 10 repos)"

section \<open>Profile aggregator (github_analyzer.py, \<open>analyze_user_skills\<close>)\<close>

definition classify :: "skill_extractor \<Rightarrow> string \<Rightarrow> string set" where
  "classify extractor text = fst (extract_from_text text extractor)"

text \<open>\<open>_extract_languages\<close>: a repository whose \<open>get_languages\<close> raises is skipped.\<close>

fun extract_languages :: "github_repo list \<Rightarrow> string set \<Rightarrow> string set" where
  "extract_languages [] langs = langs"
| "extract_languages (repo # rest) langs =
     (case repo_languages repo of
        Raised \<Rightarrow> extract_languages rest langs
      | Got keys \<Rightarrow>
          extract_languages rest
            (langs \<union> set (map str_lower
               (filter (\<lambda>lang. lang \<noteq> [] \<and> str_lower lang \<notin> set [''html'', ''css'']) keys))))"

text \<open>
  One iteration of \<open>_extract_technologies\<close>. When \<open>get_topics\<close> raises, what the name and
  the description have added stays.
\<close>

definition repo_technologies :: "skill_extractor \<Rightarrow> github_repo \<Rightarrow> string set \<Rightarrow> string set" where
  "repo_technologies extractor repo techs =
     (let techs = techs \<union> classify extractor (case repo_name repo of None \<Rightarrow> [] | Some n \<Rightarrow> n);
          techs = (case repo_description repo of
                     None \<Rightarrow> techs
                   | Some d \<Rightarrow> if d \<noteq> [] then techs \<union> classify extractor d else techs)
      in if has_get_topics repo
         then (case repo_topics repo of
                 Raised \<Rightarrow> techs
               | Got topics \<Rightarrow> techs \<union> set (map str_lower (filter (is_technology extractor) topics)))
         else techs)"

fun extract_technologies :: "skill_extractor \<Rightarrow> github_repo list \<Rightarrow> string set \<Rightarrow> string set" where
  "extract_technologies extractor [] techs = techs"
| "extract_technologies extractor (repo # rest) techs =
     extract_technologies extractor rest (repo_technologies extractor repo techs)"

text \<open>\<open>_extract_skills_from_bio\<close>: the pair is (languages, technologies).\<close>

definition extract_skills_from_bio :: "skill_extractor \<Rightarrow> string \<Rightarrow> string set \<times> string set" where
  "extract_skills_from_bio extractor bio_text =
     (if bio_text = [] then ({}, {})
      else let extracted_techs = classify extractor bio_text
           in ({tech \<in> extracted_techs. is_programming_language extractor tech},
               {tech \<in> extracted_techs. \<not> is_programming_language extractor tech}))"

text \<open>
  The result of \<open>analyze_user_skills\<close>. The lists \<open>list(all_languages)\<close> and
  \<open>list(all_technologies)\<close> enumerate the two sets in an order Python does not specify;
  the sets are kept.
\<close>

record skills_profile =
  profile_languages :: "string set"
  profile_technologies :: "string set"
  profile_experience_level :: string

definition analyze_user_skills :: "skill_extractor \<Rightarrow> github_user fetched \<Rightarrow> skills_profile option" where
  "analyze_user_skills extractor fetched_user =
     (case fetched_user of
        Raised \<Rightarrow> None
      | Got user \<Rightarrow>
          (case user_repos user of
             Raised \<Rightarrow> None
           | Got all_repos \<Rightarrow>
               (let repos = take 50 all_repos
                in if repos = [] then None
                   else
                     let langs = extract_languages repos {};
                         techs = extract_technologies extractor repos {};
                         level = estimate_experience_level user repos;
                         bio_skills = extract_skills_from_bio extractor
                                        (case bio user of None \<Rightarrow> [] | Some b \<Rightarrow> b);
                         all_langs = langs \<union> fst bio_skills;
                         all_techs = techs \<union> snd bio_skills
                     in case (public_repos user, followers user, following user,
                              user_updated_at user, user_created_at user) of
                          (Got _, Got _, Got _, Got _, Got _) \<Rightarrow>
                            Some \<lparr> profile_languages = all_langs,
                                   profile_technologies = all_techs,
                                   profile_experience_level = level \<rparr>
                        | _ \<Rightarrow> None)))"

section \<open>Request handlers (mcp_server.py)\<close>

text \<open>
  Exceptions are values. \<open>find_matching_issues\<close> (which talks to the network), \<open>str\<close> of an
  exception and the formatted message are parameters of the handlers.
\<close>

datatype exn = HTTPException nat string | OtherException string

record skill_match_request =
  request_skills :: "string list"
  request_experience_level :: "string option"
  request_issue_types :: "string list option"
  request_max_results :: "int option"

record issue_match_response =
  success :: bool
  response_issues :: "github_issue list"
  total_found :: nat
  message :: string

text \<open>Python's \<open>x or default\<close> on an optional string, list and integer.\<close>

definition or_string :: "string option \<Rightarrow> string \<Rightarrow> string" where
  "or_string x d = (case x of None \<Rightarrow> d | Some v \<Rightarrow> if v = [] then d else v)"

definition or_list :: "string list option \<Rightarrow> string list \<Rightarrow> string list" where
  "or_list x d = (case x of None \<Rightarrow> d | Some v \<Rightarrow> if v = [] then d else v)"

definition or_int :: "int option \<Rightarrow> int \<Rightarrow> int" where
  "or_int x d = (case x of None \<Rightarrow> d | Some v \<Rightarrow> if v = 0 then d else v)"

text \<open>
  \<open>match_issues_by_skills\<close>: the whole body is inside \<open>try\<close>, and the only handler is
  \<open>except Exception\<close>, which also catches the \<open>HTTPException\<close> raised inside.
\<close>

definition match_issues_by_skills ::
  "(user_skills \<Rightarrow> string list \<Rightarrow> int \<Rightarrow> exn + github_issue list) \<Rightarrow> (exn \<Rightarrow> string)
     \<Rightarrow> (nat \<Rightarrow> string) \<Rightarrow> skill_match_request \<Rightarrow> exn + issue_match_response" where
  "match_issues_by_skills find_matching_issues str_of found_message request =
     (let attempt =
        (if request_skills request = []
         then Inl (HTTPException 400 ''Skills list cannot be empty'')
         else
           let skills = \<lparr> languages = request_skills request, technologies = [],
                          experience_level =
                            or_string (request_experience_level request) ''intermediate'' \<rparr>
           in case find_matching_issues skills
                     (or_list (request_issue_types request) [''good first issue'', ''help wanted''])
                     (or_int (request_max_results request) 20) of
                Inl e \<Rightarrow> Inl e
              | Inr found \<Rightarrow>
                  Inr \<lparr> success = True, response_issues = found,
                        total_found = length found, message = found_message (length found) \<rparr>)
      in case attempt of
           Inl e \<Rightarrow> Inl (HTTPException 500 (str_of e))
         | Inr response \<Rightarrow> Inr response)"

text \<open>The status line of the reply: the status of the exception that leaves the handler.\<close>

fun http_status :: "exn + 'a \<Rightarrow> nat" where
  "http_status (Inl (HTTPException status detail)) = status"
| "http_status (Inl (OtherException detail)) = 500"
| "http_status (Inr response) = 200"

text \<open>A sample issue for concrete evaluations.\<close>

definition sample_issue :: "int \<Rightarrow> string \<Rightarrow> string \<Rightarrow> string list \<Rightarrow> github_issue" where
  "sample_issue i t b ls =
     \<lparr> issue_id = i, number = 1, title = t, body = b, url = ''u'',
       repository_name = ''o/r'', repository_url = ''ru'', labels = ls,
       created_at = ''2024-01-01T00:00:00'', updated_at = ''2024-01-02T00:00:00'',
       difficulty = determine_difficulty ls b, matched_skills = {}, relevance_score = 0 \<rparr>"

definition scored_sample :: "int \<Rightarrow> real \<Rightarrow> github_issue" where
  "scored_sample i r = (sample_issue i ''t'' ''b'' []) \<lparr> relevance_score := r \<rparr>"



text \<open>Sample upstream data for concrete evaluations.\<close>

definition sample_repo :: "string \<Rightarrow> string list \<Rightarrow> int \<Rightarrow> github_repo" where
  "sample_repo name keys t =
     \<lparr> repo_name = Some name, repo_description = None, repo_languages = Got keys,
       has_get_topics = True, repo_topics = Got [], repo_updated_at = Got (Some t) \<rparr>"

definition sample_user :: "int \<Rightarrow> int fetched \<Rightarrow> github_repo list \<Rightarrow> github_user" where
  "sample_user updated follower_count repos =
     \<lparr> bio = None, user_created_at = Got 0, user_updated_at = Got updated,
       public_repos = Got 25, followers = follower_count, following = Got 0,
       user_repos = Got repos \<rparr>"

text \<open>
  A user last seen 100 days after signing up, with five repositories last updated on that
  same day.
\<close>

definition dormant_repos :: "github_repo list" where
  "dormant_repos =
     [sample_repo ''a'' [] 8640000, sample_repo ''b'' [] 8640000, sample_repo ''c'' [] 8640000,
      sample_repo ''d'' [] 8640000, sample_repo ''e'' [] 8640000]"

definition dormant_user :: github_user where
  "dormant_user = sample_user 8640000 (Got 30) dormant_repos"


section \<open>Substrings\<close>

lemma str_in_sublist: "str_in sub s \<longleftrightarrow> sublist sub s"
  by (induction s) (auto simp: sublist_Cons_right)

lemma str_in_trans: "str_in a b \<Longrightarrow> str_in b c \<Longrightarrow> str_in a c"
  unfolding str_in_sublist by (rule sublist_order.order.trans)

section \<open>Properties of the difficulty classification\<close>

lemma any_label_in_iff:
  "any_label_in candidates labels_lower \<longleftrightarrow> set labels_lower \<inter> set candidates \<noteq> {}"
  by (auto simp: any_label_in_def list_ex_iff)

lemma scan_indicators_table:
  "scan_indicators complexity_indicators B =
     (if (\<exists>k \<in> {''simple'', ''easy'', ''basic'', ''straightforward'', ''minor''}. str_in k B)
        then ''beginner''
      else if (\<exists>k \<in> {''complex'', ''advanced'', ''architecture'', ''performance'',
                        ''optimization'', ''refactor''}. str_in k B)
        then ''expert''
      else ''intermediate'')"
  unfolding complexity_indicators_def by (simp add: list_ex_iff)

text \<open>
  C4. The difficulty of an issue is decided by the label-priority cascade of the
  specification, first match wins, on lower-cased labels and then on the lower-cased body
  (beginner keywords before expert keywords, default intermediate). In particular an issue
  labelled exactly \<open>["good first issue"]\<close> is a beginner issue whatever its body is.
\<close>

theorem determine_difficulty_cascade:
  "determine_difficulty label_names body_text
     = spec_difficulty_cascade (str_lower ` set label_names) (str_lower body_text)
   \<and> determine_difficulty [''good first issue''] body_text = ''beginner''"
proof
  show "determine_difficulty label_names body_text
          = spec_difficulty_cascade (str_lower ` set label_names) (str_lower body_text)"
    unfolding determine_difficulty_def spec_difficulty_cascade_def Let_def
      any_label_in_iff scan_indicators_table
    by (simp add: Int_commute)
  show "determine_difficulty [''good first issue''] body_text = ''beginner''"
    by (simp add: determine_difficulty_def any_label_in_def str_lower_def lower_char_def)
qed

theorem determine_difficulty_cascade_witness:
  "determine_difficulty [''Help Wanted'', ''HARD''] ''a simple fix'' = ''expert''
   \<and> determine_difficulty [''Docs''] ''Basic but complex'' = ''beginner''
   \<and> determine_difficulty [''good first issue''] ''a complex refactor'' = ''beginner''"
  using determine_difficulty_cascade [of "[''Help Wanted'', ''HARD'']" "''a simple fix''"]
    determine_difficulty_cascade [of "[''Docs'']" "''Basic but complex''"]
    determine_difficulty_cascade [of "[]" "''a complex refactor''"]
  by (simp add: spec_difficulty_cascade_def str_lower_def lower_char_def)

section \<open>Properties of the deduplication\<close>








section \<open>Properties of the ranking\<close>

lemma sort_by_score_sorted:
  "sorted_wrt (\<lambda>a b. relevance_score b \<le> relevance_score a) (sort_by_score issues)"
proof -
  have "sorted (map (\<lambda>x. - relevance_score x) (sort_by_score issues))"
    unfolding sort_by_score_def by (rule sorted_sort_key)
  then show ?thesis by (simp add: sorted_map sorted_wrt_iff_nth_less)
qed

lemma slice_to_prefix: "prefix (slice_to xs n) xs"
  unfolding slice_to_def by (simp add: take_is_prefix)

lemma sort_by_score_stable:
  "filter (\<lambda>y. relevance_score y = k) (sort_by_score issues) = filter (\<lambda>y. relevance_score y = k) issues"
proof -
  have "filter (\<lambda>y. - relevance_score y = - k) (sort_key (\<lambda>x. - relevance_score x) issues)
          = filter (\<lambda>y. - relevance_score y = - k) issues"
    by (rule sort_key_stable)
  then show ?thesis unfolding sort_by_score_def by simp
qed

text \<open>
  For a \<open>max_results\<close> that is not negative the ranking is what its docstring says: the
  first \<open>max_results\<close> issues of the stably sorted list. The output is sorted
  non-increasing by relevance score, its issues with a given score are the first issues of
  the input with that score in the order of the input, and it has at most \<open>max_results\<close>
  issues.
\<close>

lemma rank_issues_nonnegative:
  assumes "0 \<le> max_results"
  shows "rank_issues scored max_results = take (nat max_results) (sort_by_score scored)
   \<and> sorted_wrt (\<lambda>a b. relevance_score b \<le> relevance_score a) (rank_issues scored max_results)
   \<and> prefix (filter (\<lambda>y. relevance_score y = k) (rank_issues scored max_results))
            (filter (\<lambda>y. relevance_score y = k) scored)
   \<and> int (length (rank_issues scored max_results)) \<le> max_results"
proof (intro conjI)
  show cut: "rank_issues scored max_results = take (nat max_results) (sort_by_score scored)"
    using assms by (simp add: rank_issues_def slice_to_def)
  obtain zs where zs: "sort_by_score scored = rank_issues scored max_results @ zs"
    using slice_to_prefix [of "sort_by_score scored" max_results]
    unfolding rank_issues_def prefix_def by blast
  have "sorted_wrt (\<lambda>a b. relevance_score b \<le> relevance_score a) (rank_issues scored max_results @ zs)"
    using sort_by_score_sorted [of scored] unfolding zs .
  then show "sorted_wrt (\<lambda>a b. relevance_score b \<le> relevance_score a) (rank_issues scored max_results)"
    by (simp add: sorted_wrt_append)
  have "prefix (filter (\<lambda>y. relevance_score y = k) (rank_issues scored max_results))
               (filter (\<lambda>y. relevance_score y = k) (sort_by_score scored))"
    unfolding rank_issues_def by (rule filter_mono_prefix) (rule slice_to_prefix)
  then show "prefix (filter (\<lambda>y. relevance_score y = k) (rank_issues scored max_results))
            (filter (\<lambda>y. relevance_score y = k) scored)"
    unfolding sort_by_score_stable .
  show "int (length (rank_issues scored max_results)) \<le> max_results"
    unfolding cut using assms by auto
qed

text \<open>
  C5 fails on the code for a negative \<open>max_results\<close>, which the request model accepts and
  no statement of the code checks. The docstring calls \<open>max_results\<close> the maximum number
  of issues to return, but the slice \<open>scored_issues[:max_results]\<close> then drops only the
  last issues: three scored issues and \<open>max_results = -1\<close> give two issues, not at most
  \<open>-1\<close>.
\<close>

theorem rank_issues_negative_cap:
  "rank_issues [scored_sample 1 1, scored_sample 2 3, scored_sample 3 3] (- 1)
     = [scored_sample 2 3, scored_sample 3 3]
   \<and> \<not> int (length (rank_issues [scored_sample 1 1, scored_sample 2 3, scored_sample 3 3] (- 1)))
         \<le> - 1"
  by (simp add: rank_issues_def slice_to_def sort_by_score_def scored_sample_def)

section \<open>Properties of the scoring\<close>


lemma label_loop_sum:
  "label_loop level label_names score = score + (\<Sum>l\<leftarrow>label_names. first_label_bonus level l)"
  by (induction label_names arbitrary: score) (auto simp: first_label_bonus_def Let_def)

lemma first_le_spec: "first_label_bonus level l \<le> spec_label_bonus level l"
  by (simp add: first_label_bonus_def spec_label_bonus_def Let_def)





text \<open>
  C1, as stated, fails: the four label tests are the branches of one \<open>if/elif\<close> chain, so
  a label that matches two categories earns the first of them only. The label
  \<open>bug: help wanted\<close> earns 2.0, not 2.0 + 1.0.
\<close>

theorem label_bonus_independent_counterexample:
  "label_loop ''beginner'' [''bug: help wanted''] 0
     \<noteq> sum_list (map (spec_label_bonus ''beginner'') [''bug: help wanted''])"
  by (simp add: spec_label_bonus_def str_lower_def lower_char_def)

text \<open>
  C1, amended. Every label of the list, once per occurrence, adds the bonus of the first
  category that applies to it, in the order good first issue (+3.0, for a beginner or
  intermediate profile), help wanted (+2.0), bug (+1.0), enhancement or feature (+1.5);
  the bonuses of the labels add up, and the sum is never more than the sum of the
  independent bonuses.
\<close>

theorem label_bonus_first_applicable:
  "label_loop level label_names score
     = score + sum_list (map (first_label_bonus level) label_names)
   \<and> label_loop level label_names score
     \<le> score + sum_list (map (spec_label_bonus level) label_names)"
proof -
  have "sum_list (map (first_label_bonus level) label_names)
          \<le> sum_list (map (spec_label_bonus level) label_names)"
    by (rule sum_list_mono) (rule first_le_spec)
  then show ?thesis unfolding label_loop_sum by simp
qed

theorem label_bonus_first_applicable_witness:
  "label_loop ''beginner'' [''bug: help wanted'', ''Good First Issue'', ''bug''] 0 = 6
   \<and> label_loop ''advanced'' [''good first issue'', ''new feature''] 0 = 3 / 2"
  using label_bonus_first_applicable [of "''beginner''" "[''bug: help wanted'', ''Good First Issue'', ''bug'']" 0]
    label_bonus_first_applicable [of "''advanced''" "[''good first issue'', ''new feature'']" 0]
  by (simp add: first_label_bonus_def str_lower_def lower_char_def)




text \<open>
  C10. The scoring pass returns the same issues in the same order: the output list has the
  length of the input list, and position by position the id, number, title, body, url,
  repository name and url, labels, both timestamps and the difficulty are those of the
  input. Only \<open>relevance_score\<close> and \<open>matched_skills\<close> are written.
\<close>

theorem score_issues_frame:
  "length (score_issues age_days issues skills) = length issues
   \<and> map issue_id (score_issues age_days issues skills) = map issue_id issues
   \<and> map number (score_issues age_days issues skills) = map number issues
   \<and> map title (score_issues age_days issues skills) = map title issues
   \<and> map body (score_issues age_days issues skills) = map body issues
   \<and> map url (score_issues age_days issues skills) = map url issues
   \<and> map repository_name (score_issues age_days issues skills) = map repository_name issues
   \<and> map repository_url (score_issues age_days issues skills) = map repository_url issues
   \<and> map labels (score_issues age_days issues skills) = map labels issues
   \<and> map created_at (score_issues age_days issues skills) = map created_at issues
   \<and> map updated_at (score_issues age_days issues skills) = map updated_at issues
   \<and> map difficulty (score_issues age_days issues skills) = map difficulty issues"
  by (simp add: score_issues_def score_issue_def Let_def split_beta o_def)

section \<open>Properties of the experience estimator\<close>

lemma active_repos_filter:
  "active_repos u rs =
     (if list_ex (\<lambda>repo. repo_updated_at repo = Raised) rs then None
      else Some (filter (\<lambda>repo. case repo_updated_at repo of
                      Got (Some t) \<Rightarrow> days_between u t \<le> 365
                    | _ \<Rightarrow> False) rs))"
  by (induction rs) (auto split: fetched.splits option.splits)

lemma active_repos_ok:
  "\<not> list_ex (\<lambda>repo. repo_updated_at repo = Raised) (take 10 repos) \<Longrightarrow>
   active_repos u (take 10 repos) = Some (active_relative_to_user u repos)"
  by (simp add: active_repos_filter active_relative_to_user_def)

lemma age_step:
  "(if a \<ge> 5 then s + 3 else if a \<ge> 2 then s + 2 else if a \<ge> 1 then s + 1 else s)
     = s + spec_age_points a"
  by (simp add: spec_age_points_def)

lemma repo_step:
  "(if n \<ge> 50 then s + 3 else if n \<ge> 20 then s + 2 else if n \<ge> 5 then s + 1 else s)
     = s + spec_repo_points n"
  by (simp add: spec_repo_points_def)

lemma follower_step:
  "(if n \<ge> 100 then s + 2 else if n \<ge> 20 then s + 1 else s) = s + spec_follower_points n"
  by (simp add: spec_follower_points_def)

lemma activity_step:
  "(if n \<ge> 5 then s + 2 else if n \<ge> 2 then s + 1 else s) = s + spec_activity_points n"
  by (simp add: spec_activity_points_def)

lemma experience_try_ok:
  assumes "user_updated_at user = Got updated" "user_created_at user = Got created"
    "public_repos user = Got total_repos" "followers user = Got follower_count"
    "\<not> list_ex (\<lambda>repo. repo_updated_at repo = Raised) (take 10 repos)"
  shows "experience_try user repos
          = Some (spec_tier (spec_age_points (real_of_int (days_between updated created) / 365.25)
                       + spec_repo_points total_repos
                       + spec_follower_points follower_count
                       + spec_activity_points (length (active_relative_to_user updated repos))))"
  unfolding experience_try_def Let_def assms(1-4) active_repos_ok [OF assms(5)]
    age_step repo_step follower_step activity_step
  by (simp only: prod.case fetched.case option.case spec_tier_def add_0)

lemma experience_try_failure:
  assumes "upstream_failure user repos"
  shows "experience_try user repos = None"
proof (cases "user_updated_at user")
  case Raised then show ?thesis by (simp add: experience_try_def)
next
  case u: (Got updated)
  show ?thesis
  proof (cases "user_created_at user")
    case Raised then show ?thesis by (simp add: experience_try_def u)
  next
    case c: (Got created)
    show ?thesis
    proof (cases "public_repos user")
      case Raised then show ?thesis by (simp add: experience_try_def u c)
    next
      case p: (Got total_repos)
      show ?thesis
      proof (cases "followers user")
        case Raised then show ?thesis by (simp add: experience_try_def u c p)
      next
        case f: (Got follower_count)
        from assms u c p f
        have "list_ex (\<lambda>repo. repo_updated_at repo = Raised) (take 10 repos)"
          by (simp add: upstream_failure_def)
        then have "active_repos updated (take 10 repos) = None"
          by (simp add: active_repos_filter)
        then show ?thesis
          unfolding experience_try_def Let_def u c p f by (simp only: prod.case fetched.case option.case)
      qed
    qed
  qed
qed

text \<open>
  C7, as stated, fails: the code never reads the clock. It counts a repository as active
  when its \<open>updated_at\<close> is no more than 365 days before the user's \<open>updated_at\<close>, not
  before the time of the call. For a user last seen 100 days after signing up, whose five
  repositories were last updated that day, and a call 1000 days later, no repository was
  updated within the last 365 days, yet the code adds the 2 activity points and answers
  advanced where the claim's sum gives intermediate.
\<close>

theorem estimate_experience_level_clock_counterexample:
  "estimate_experience_level dormant_user dormant_repos = ''advanced''
   \<and> spec_recently_active 95040000 dormant_repos = []
   \<and> spec_experience_tier 95040000 8640000 0 25 30 dormant_repos = ''intermediate''
   \<and> estimate_experience_level dormant_user dormant_repos
       \<noteq> spec_experience_tier 95040000 8640000 0 25 30 dormant_repos"
proof -
  have fields: "user_updated_at dormant_user = Got 8640000" "user_created_at dormant_user = Got 0"
    "public_repos dormant_user = Got 25" "followers dormant_user = Got 30"
    by (simp_all add: dormant_user_def sample_user_def)
  have reads: "\<not> list_ex (\<lambda>repo. repo_updated_at repo = Raised) (take 10 dormant_repos)"
    by (simp add: dormant_repos_def sample_repo_def)
  have active: "length (active_relative_to_user 8640000 dormant_repos) = 5"
    by (simp add: active_relative_to_user_def dormant_repos_def sample_repo_def days_between_def)
  have "experience_try dormant_user dormant_repos
          = Some (spec_tier (spec_age_points (real_of_int (days_between 8640000 0) / 365.25)
                       + spec_repo_points 25 + spec_follower_points 30
                       + spec_activity_points (length (active_relative_to_user 8640000 dormant_repos))))"
    using fields reads by (rule experience_try_ok)
  then have code: "estimate_experience_level dormant_user dormant_repos = ''advanced''"
    unfolding active
    by (simp add: estimate_experience_level_def spec_tier_def spec_age_points_def
        spec_repo_points_def spec_follower_points_def spec_activity_points_def days_between_def)
  have none: "spec_recently_active 95040000 dormant_repos = []"
    by (simp add: spec_recently_active_def dormant_repos_def sample_repo_def)
  have spec: "spec_experience_tier 95040000 8640000 0 25 30 dormant_repos = ''intermediate''"
    unfolding spec_experience_tier_def none
    by (simp add: spec_tier_def spec_age_points_def spec_repo_points_def
        spec_follower_points_def spec_activity_points_def days_between_def)
  from code none spec show ?thesis by simp
qed

text \<open>
  C7, amended. When every read of upstream data succeeds, the estimated tier is the tier
  of the sum of four point scales: account age in years (the whole days between the
  user's creation and last update, divided by 365.25) at least 5, 2, 1 gives 3, 2, 1;
  repository count at least 50, 20, 5 gives 3, 2, 1; followers at least 100, 20 gives 2, 1;
  the number of repositories, among the first ten, whose last update is no more than 365
  whole days before the user's own last update (a later update counts) at least 5, 2 gives
  2, 1. A sum of at least 8 is expert, at least 5 advanced, at least 2 intermediate, less
  beginner. When any read of upstream data raises, the tier is intermediate.
\<close>

theorem estimate_experience_level_tiers:
  "(user_updated_at user = Got updated \<and> user_created_at user = Got created
      \<and> public_repos user = Got total_repos \<and> followers user = Got follower_count
      \<and> \<not> list_ex (\<lambda>repo. repo_updated_at repo = Raised) (take 10 repos)
    \<longrightarrow> estimate_experience_level user repos
          = spec_tier (spec_age_points (real_of_int (days_between updated created) / 365.25)
                       + spec_repo_points total_repos
                       + spec_follower_points follower_count
                       + spec_activity_points (length (active_relative_to_user updated repos))))
   \<and> (upstream_failure user repos \<longrightarrow> estimate_experience_level user repos = ''intermediate'')"
proof (intro conjI impI)
  assume ok: "user_updated_at user = Got updated \<and> user_created_at user = Got created
      \<and> public_repos user = Got total_repos \<and> followers user = Got follower_count
      \<and> \<not> list_ex (\<lambda>repo. repo_updated_at repo = Raised) (take 10 repos)"
  then have "experience_try user repos
          = Some (spec_tier (spec_age_points (real_of_int (days_between updated created) / 365.25)
                       + spec_repo_points total_repos
                       + spec_follower_points follower_count
                       + spec_activity_points (length (active_relative_to_user updated repos))))"
    by (intro experience_try_ok) simp_all
  then show "estimate_experience_level user repos
          = spec_tier (spec_age_points (real_of_int (days_between updated created) / 365.25)
                       + spec_repo_points total_repos
                       + spec_follower_points follower_count
                       + spec_activity_points (length (active_relative_to_user updated repos)))"
    by (simp add: estimate_experience_level_def)
next
  assume "upstream_failure user repos"
  then have "experience_try user repos = None" by (rule experience_try_failure)
  then show "estimate_experience_level user repos = ''intermediate''"
    by (simp add: estimate_experience_level_def)
qed

theorem estimate_experience_level_tiers_witness:
  "estimate_experience_level
       (sample_user 189734400 (Got 30)
          [sample_repo ''a'' [] 189734400, sample_repo ''b'' [] 189000000, sample_repo ''c'' [] 0])
       [sample_repo ''a'' [] 189734400, sample_repo ''b'' [] 189000000, sample_repo ''c'' [] 0]
     = ''advanced''
   \<and> estimate_experience_level
       (sample_user 189734400 Raised [sample_repo ''a'' [] 189734400])
       [sample_repo ''a'' [] 189734400]
     = ''intermediate''"
proof
  let ?repos = "[sample_repo ''a'' [] 189734400, sample_repo ''b'' [] 189000000, sample_repo ''c'' [] 0]"
  let ?user = "sample_user 189734400 (Got 30) ?repos"
  have pre: "user_updated_at ?user = Got 189734400 \<and> user_created_at ?user = Got 0
      \<and> public_repos ?user = Got 25 \<and> followers ?user = Got 30
      \<and> \<not> list_ex (\<lambda>repo. repo_updated_at repo = Raised) (take 10 ?repos)"
    by (simp add: sample_user_def sample_repo_def)
  have active: "length (active_relative_to_user 189734400 ?repos) = 2"
    by (simp add: active_relative_to_user_def sample_repo_def days_between_def)
  have points: "spec_tier (spec_age_points (real_of_int (days_between 189734400 0) / 365.25)
                       + spec_repo_points 25 + spec_follower_points 30
                       + spec_activity_points 2) = ''advanced''"
    by (simp add: spec_tier_def spec_age_points_def spec_repo_points_def
        spec_follower_points_def spec_activity_points_def days_between_def)
  from estimate_experience_level_tiers [of ?user 189734400 0 25 30 ?repos] pre
  show "estimate_experience_level ?user ?repos = ''advanced''"
    unfolding active points by blast
next
  have "upstream_failure (sample_user 189734400 Raised [sample_repo ''a'' [] 189734400])
          [sample_repo ''a'' [] 189734400]"
    by (simp add: upstream_failure_def sample_user_def)
  with estimate_experience_level_tiers
    [of "sample_user 189734400 Raised [sample_repo ''a'' [] 189734400]" 0 0 0 0
        "[sample_repo ''a'' [] 189734400]"]
  show "estimate_experience_level
       (sample_user 189734400 Raised [sample_repo ''a'' [] 189734400])
       [sample_repo ''a'' [] 189734400] = ''intermediate''"
    by blast
qed

section \<open>The empty skills list\<close>

text \<open>
  C3 fails on the code. The handler raises \<open>HTTPException(400)\<close> for an empty skills list
  inside its own \<open>try\<close> block, whose only handler, \<open>except Exception\<close>, catches it and
  raises \<open>HTTPException(500)\<close>; the other two handlers of the file re-raise an
  \<open>HTTPException\<close> first. Every request with an empty skills list is answered with 500.
\<close>

theorem match_issues_by_skills_empty_skills:
  "match_issues_by_skills find_matching_issues str_of found_message
       (request \<lparr> request_skills := [] \<rparr>)
     = Inl (HTTPException 500 (str_of (HTTPException 400 ''Skills list cannot be empty'')))
   \<and> http_status (match_issues_by_skills find_matching_issues str_of found_message
       (request \<lparr> request_skills := [] \<rparr>)) = 500"
  by (simp add: match_issues_by_skills_def)

section \<open>Languages and technologies of a profile\<close>

lemma findall_python: "findall_words ''python'' = [''python'']"
  by (simp add: findall_words_def is_word_char_def emit_word_def)

lemma python_language: "''python'' \<in> programming_languages SkillExtractor_init"
  by (simp add: SkillExtractor_init_def programming_languages_init_def)

lemma classify_python: "classify SkillExtractor_init ''python'' = {''python''}"
proof -
  have low: "str_lower ''python'' = ''python''" by (simp add: str_lower_def lower_char_def)
  have compounds: "filter (\<lambda>t. str_in t ''python'') compound_terms = []"
    by (simp add: compound_terms_def)
  have variations: "List.map_filter (map_of text_variations) [''python''] = []"
    by (simp add: text_variations_def List.map_filter_def)
  show ?thesis
    unfolding classify_def extract_from_text_def Let_def low findall_python compounds variations
    using python_language by simp
qed

lemma languages_python:
  "extract_languages [sample_repo ''python'' [''Python''] 0] {} = {''python''}"
  by (simp add: sample_repo_def str_lower_def lower_char_def)

lemma technologies_python:
  "extract_technologies SkillExtractor_init [sample_repo ''python'' [''Python''] 0] {} = {''python''}"
  by (simp add: repo_technologies_def classify_python Let_def sample_repo_def)

lemma level_python:
  "estimate_experience_level (sample_user 34560000 (Got 0) [sample_repo ''python'' [''Python''] 0])
     [sample_repo ''python'' [''Python''] 0] = ''intermediate''"
proof -
  have "\<not> list_ex (\<lambda>repo. repo_updated_at repo = Raised) (take 10 [sample_repo ''python'' [''Python''] 0])"
    by (simp add: sample_repo_def)
  show ?thesis
    by (simp add: estimate_experience_level_def experience_try_def sample_user_def
        sample_repo_def days_between_def Let_def)
qed

text \<open>
  C2 fails on the code. The tags found in repository names, descriptions and topics all go
  to the technologies, languages included; only the tags of the bio are split. A user
  whose single repository is called \<open>python\<close> and is written in Python gets \<open>python\<close> in
  both sets.
\<close>

theorem analyze_user_skills_overlap:
  "analyze_user_skills SkillExtractor_init
       (Got (sample_user 34560000 (Got 0) [sample_repo ''python'' [''Python''] 0]))
     = Some \<lparr> profile_languages = {''python''}, profile_technologies = {''python''},
              profile_experience_level = ''intermediate'' \<rparr>"
proof -
  let ?repos = "[sample_repo ''python'' [''Python''] 0]"
  let ?user = "sample_user 34560000 (Got 0) ?repos"
  have fields: "user_repos ?user = Got ?repos" "bio ?user = None"
    "public_repos ?user = Got 25" "followers ?user = Got 0" "following ?user = Got 0"
    "user_updated_at ?user = Got 34560000" "user_created_at ?user = Got 0"
    by (simp_all add: sample_user_def)
  have first_fifty: "take 50 ?repos = ?repos" by simp
  show ?thesis
    unfolding analyze_user_skills_def Let_def fields fetched.case first_fifty
      languages_python technologies_python level_python
    by (simp add: extract_skills_from_bio_def)
qed

end
